theory Spec2Isabelle
  imports Main "HOL-Library.Word"
begin

unbundle bit_operations_syntax

section \<open>Noise sources of the random number generator\<close>

text \<open>
  The repository's random number pool is fed by noise sources. Each source has a
  \<^verbatim>\<open>stir()\<close> method that services its hardware and hands what it collected to
  \<^verbatim>\<open>output(data, len, creditBits)\<close>, together with the number of entropy bits it
  claims for that data.

  This development covers \<^verbatim>\<open>ESPNoiseSource::stir()\<close>, and the Von Neumann debiasing
  step that the ring oscillator page describes.
\<close>

type_synonym uint8_t = "8 word"
type_synonym uint32_t = "32 word"

subsection \<open>The call a source makes to \<^verbatim>\<open>output()\<close>\<close>

text \<open>
  \<^verbatim>\<open>output(buffer, len, creditBits)\<close> is the only effect of a \<^verbatim>\<open>stir()\<close> on the rest
  of the program, so a \<^verbatim>\<open>stir()\<close> is modelled by the call it makes: \<open>None\<close> when it
  returns without calling \<^verbatim>\<open>output()\<close>, \<open>Some\<close> of the arguments otherwise.
\<close>

record output_call =
  o_data :: "uint8_t list"
  o_len :: nat
  o_credit :: nat

subsection \<open>\<^verbatim>\<open>ESPNoiseSource\<close>\<close>

record ESPNoiseSource =
  enableDigitalADC :: bool

text \<open>The macro \<^verbatim>\<open>BIT(nr)\<close> of the platform headers, \<^verbatim>\<open>1UL << nr\<close>, on 32 bits.\<close>

definition BIT :: "nat \<Rightarrow> uint32_t" where
  "BIT nr = push_bit nr 1"

text \<open>
  \<^verbatim>\<open>esp_fill_random(buffer, sizeof(buffer))\<close> is a platform function: it stores one
  byte of the hardware generator's output at every index of the buffer. The hardware
  is a parameter \<open>rng\<close>, the byte it yields for index \<open>i\<close>; the buffer after the call
  is then determined at each of its \<open>n\<close> indices.
\<close>

definition esp_fill_random :: "(nat \<Rightarrow> uint8_t) \<Rightarrow> nat \<Rightarrow> uint8_t list" where
  "esp_fill_random rng n = map rng [0..<n]"

text \<open>
  \<^verbatim>\<open>
  void ESPNoiseSource::stir()
  {
      uint32_t s_module_phy_rf_init_old = s_module_phy_rf_init;
      uint32_t phy_bt_wifi_mask = BIT(PHY_BT_MODULE) | BIT(PHY_WIFI_MODULE);
      bool is_wifi_or_bt_enabled = !!(s_module_phy_rf_init_old & phy_bt_wifi_mask);
      if (!is_wifi_or_bt_enabled && !enableDigitalADC) return;
      uint8_t buffer[32];
      esp_fill_random(buffer,sizeof(buffer));
      output(buffer,sizeof(buffer),sizeof(buffer)*2);
  }
  \<close>
  The enumerators \<^verbatim>\<open>PHY_BT_MODULE\<close> and \<^verbatim>\<open>PHY_WIFI_MODULE\<close> come from the platform
  headers and are parameters. \<^verbatim>\<open>s_module_phy_rf_init\<close> is a file-level static variable,
  read at every call; it is a parameter too (the file initialises it to 0 and never
  assigns it). \<^verbatim>\<open>sizeof(buffer)\<close> is 32.
\<close>

definition is_wifi_or_bt_enabled :: "nat \<Rightarrow> nat \<Rightarrow> uint32_t \<Rightarrow> bool" where
  "is_wifi_or_bt_enabled PHY_BT_MODULE PHY_WIFI_MODULE s_module_phy_rf_init =
     (let s_module_phy_rf_init_old = s_module_phy_rf_init;
          phy_bt_wifi_mask = BIT PHY_BT_MODULE OR BIT PHY_WIFI_MODULE
      in s_module_phy_rf_init_old AND phy_bt_wifi_mask \<noteq> 0)"

definition ESPNoiseSource_stir ::
  "nat \<Rightarrow> nat \<Rightarrow> uint32_t \<Rightarrow> ESPNoiseSource \<Rightarrow> (nat \<Rightarrow> uint8_t) \<Rightarrow> output_call option" where
  "ESPNoiseSource_stir PHY_BT_MODULE PHY_WIFI_MODULE s_module_phy_rf_init this rng =
     (if \<not> is_wifi_or_bt_enabled PHY_BT_MODULE PHY_WIFI_MODULE s_module_phy_rf_init
           \<and> \<not> enableDigitalADC this
      then None
      else
        (let buffer = esp_fill_random rng 32
         in Some \<lparr>o_data = buffer, o_len = 32, o_credit = 32 * 2\<rparr>))"

subsection \<open>Bytes as bit streams\<close>

text \<open>The eight bits of a byte, lowest first, and the bit stream of a buffer.\<close>

definition byte_bits :: "uint8_t \<Rightarrow> bool list" where
  "byte_bits b = map (bit b) [0..<8]"

definition bits_of :: "uint8_t list \<Rightarrow> bool list" where
  "bits_of bs = concat (map byte_bits bs)"

subsection \<open>Von Neumann debiasing\<close>

text \<open>
  Modelled from the spec: the debiasing code of \<^verbatim>\<open>RingOscillatorNoiseSource\<close> is not
  among the source files; the ring oscillator page and the specification describe it
  in the same words:
  \<^item> collect two input bits;
  \<^item> if they are the same, discard both;
  \<^item> if they are different, choose one as the output bit and discard the other.

  Which bit of an unequal pair is chosen is left open there, so it is the parameter
  \<open>pick_first\<close>. A last bit without a partner yields nothing.
\<close>

fun von_neumann :: "bool \<Rightarrow> bool list \<Rightarrow> bool list" where
  "von_neumann pick_first (a # b # rest) =
     (if a = b then von_neumann pick_first rest
      else (if pick_first then a else b) # von_neumann pick_first rest)"
| "von_neumann pick_first [a] = []"
| "von_neumann pick_first [] = []"

text \<open>A hardware output used in the examples below: byte \<open>i\<close> is \<open>37 i + 11\<close>.\<close>

definition sample_rng :: "nat \<Rightarrow> uint8_t" where
  "sample_rng i = of_nat (37 * i + 11)"

section \<open>Properties\<close>

lemma length_esp_fill_random: "length (esp_fill_random rng n) = n"
  by (simp add: esp_fill_random_def)

lemma length_byte_bits: "length (byte_bits b) = 8"
  by (simp add: byte_bits_def)

lemma length_bits_of: "length (bits_of bs) = 8 * length bs"
  by (induction bs) (simp_all add: bits_of_def length_byte_bits)

subsection \<open>Auxiliary facts\<close>

lemma length_von_neumann_le: "length (von_neumann p xs) \<le> length xs div 2"
  by (induction p xs rule: von_neumann.induct) auto

text \<open>
  The file initialises \<^verbatim>\<open>s_module_phy_rf_init\<close> to 0 and never assigns it. At that
  value the radio test is false, and \<^verbatim>\<open>stir()\<close> delivers exactly when the digital ADC
  is enabled.
\<close>

lemma ESPNoiseSource_stir_static_zero:
  "ESPNoiseSource_stir bt wifi 0 this rng =
     (if enableDigitalADC this
      then Some \<lparr>o_data = esp_fill_random rng 32, o_len = 32, o_credit = 64\<rparr>
      else None)"
  by (simp add: ESPNoiseSource_stir_def is_wifi_or_bt_enabled_def)

lemma sample_buffer:
  "esp_fill_random sample_rng 32 =
     [11, 48, 85, 122, 159, 196, 233, 14, 51, 88, 125, 162, 199, 236, 17, 54,
      91, 128, 165, 202, 239, 20, 57, 94, 131, 168, 205, 242, 23, 60, 97, 134]"
  by code_simp

subsection \<open>The Von Neumann extractor halves its input at least\<close>

text \<open>
  Claim C5. The Von Neumann debiasing extractor consumes its input bits in pairs: an
  equal pair is discarded, an unequal pair yields exactly one bit (one of the two), and a
  last bit without a partner yields nothing. So for every input bit stream the output has
  at most half as many bits as the input.
\<close>

theorem von_neumann_pairwise_half:
  "von_neumann p (a # a # rest) = von_neumann p rest
   \<and> von_neumann p (a # (\<not> a) # rest) = (if p then a else \<not> a) # von_neumann p rest
   \<and> von_neumann p [a] = []
   \<and> von_neumann p [] = []
   \<and> length (von_neumann p xs) \<le> length xs div 2"
  using length_von_neumann_le [of p xs] by simp

text \<open>The same at concrete streams, among them one of nine bits.\<close>

theorem von_neumann_pairwise_half_witness:
  "von_neumann True [True, True, False, True] = [False]
   \<and> von_neumann True [True, False, False, True] = [True, False]
   \<and> von_neumann True [True] = []
   \<and> von_neumann True [] = []
   \<and> length (von_neumann True [True, False, True, True, False, False, False, True, True])
       \<le> length [True, False, True, True, False, False, False, True, True] div 2"
  using von_neumann_pairwise_half [of True True "[False, True]"
            "[True, False, True, True, False, False, False, True, True]"]
        von_neumann_pairwise_half [of True True "[False, True]" "[]"]
  by simp

subsection \<open>What \<^verbatim>\<open>ESPNoiseSource::stir()\<close> delivers\<close>

text \<open>
  Claim C10. A call of \<^verbatim>\<open>ESPNoiseSource::stir()\<close> either returns without calling
  \<^verbatim>\<open>output()\<close>, so that no sample is delivered and no credit is claimed (this happens when
  neither the radio bits of \<^verbatim>\<open>s_module_phy_rf_init\<close> are set nor the digital ADC is
  enabled), or it calls \<^verbatim>\<open>output()\<close> once with the 32 bytes that \<^verbatim>\<open>esp_fill_random\<close>
  wrote and a credit of exactly 64 bits: two credit bits per delivered byte, a quarter of
  the delivered bits.
\<close>

theorem ESPNoiseSource_stir_nothing_or_32_bytes:
  "(\<not> is_wifi_or_bt_enabled bt wifi s \<and> \<not> enableDigitalADC this
      \<longrightarrow> ESPNoiseSource_stir bt wifi s this rng = None)
   \<and> (is_wifi_or_bt_enabled bt wifi s \<or> enableDigitalADC this
      \<longrightarrow> (\<exists>c. ESPNoiseSource_stir bt wifi s this rng = Some c
              \<and> o_data c = esp_fill_random rng 32
              \<and> length (o_data c) = 32 \<and> o_len c = 32
              \<and> o_credit c = 64
              \<and> o_credit c = 2 * length (o_data c)
              \<and> 4 * o_credit c = length (bits_of (o_data c))))"
  by (auto simp add: ESPNoiseSource_stir_def length_esp_fill_random length_bits_of)

text \<open>
  Both branches at concrete inputs, with the static variable at 0 as the file leaves it
  (\<^verbatim>\<open>PHY_BT_MODULE = 0\<close>, \<^verbatim>\<open>PHY_WIFI_MODULE = 1\<close>): with the digital ADC off nothing
  is delivered, with the digital ADC on the 32 bytes are.
\<close>

theorem ESPNoiseSource_stir_nothing_or_32_bytes_witness:
  "ESPNoiseSource_stir 0 1 0 \<lparr>enableDigitalADC = False\<rparr> sample_rng = None
   \<and> (\<exists>c. ESPNoiseSource_stir 0 1 0 \<lparr>enableDigitalADC = True\<rparr> sample_rng = Some c
          \<and> o_data c = esp_fill_random sample_rng 32
          \<and> length (o_data c) = 32 \<and> o_len c = 32
          \<and> o_credit c = 64
          \<and> o_credit c = 2 * length (o_data c)
          \<and> 4 * o_credit c = length (bits_of (o_data c)))"
proof -
  have off: "\<not> is_wifi_or_bt_enabled 0 1 0 \<and> \<not> enableDigitalADC \<lparr>enableDigitalADC = False\<rparr>"
    by (simp add: is_wifi_or_bt_enabled_def BIT_def)
  have on: "is_wifi_or_bt_enabled 0 1 0 \<or> enableDigitalADC \<lparr>enableDigitalADC = True\<rparr>"
    by simp
  from off on
    ESPNoiseSource_stir_nothing_or_32_bytes [of 0 1 0 "\<lparr>enableDigitalADC = False\<rparr>" sample_rng]
    ESPNoiseSource_stir_nothing_or_32_bytes [of 0 1 0 "\<lparr>enableDigitalADC = True\<rparr>" sample_rng]
  show ?thesis by blast
qed

subsection \<open>\<^verbatim>\<open>ESPNoiseSource::stir()\<close> does not debias\<close>

text \<open>
  Claim C6 says that every noise source runs the Von Neumann extractor over its raw bits
  before it calls \<^verbatim>\<open>output()\<close>, and sizes its credit for the extractor's deflation.
  \<^verbatim>\<open>ESPNoiseSource::stir()\<close> does the second but not the first. With the digital ADC
  enabled and the hardware yielding the bytes \<open>sample_rng\<close>, the call to \<^verbatim>\<open>output()\<close>
  carries exactly the 32 bytes (256 bits) that \<^verbatim>\<open>esp_fill_random\<close> wrote, while the
  extractor's output on those bits has 61 bits, whichever bit of a pair it keeps.
\<close>

theorem ESPNoiseSource_stir_debias_counterexample:
  "ESPNoiseSource_stir 0 1 0 \<lparr>enableDigitalADC = True\<rparr> sample_rng
     = Some \<lparr>o_data =
          [11, 48, 85, 122, 159, 196, 233, 14, 51, 88, 125, 162, 199, 236, 17, 54,
           91, 128, 165, 202, 239, 20, 57, 94, 131, 168, 205, 242, 23, 60, 97, 134],
        o_len = 32, o_credit = 64\<rparr>
   \<and> esp_fill_random sample_rng 32 =
          [11, 48, 85, 122, 159, 196, 233, 14, 51, 88, 125, 162, 199, 236, 17, 54,
           91, 128, 165, 202, 239, 20, 57, 94, 131, 168, 205, 242, 23, 60, 97, 134]
   \<and> length (bits_of (esp_fill_random sample_rng 32)) = 256
   \<and> length (von_neumann True (bits_of (esp_fill_random sample_rng 32))) = 61
   \<and> length (von_neumann False (bits_of (esp_fill_random sample_rng 32))) = 61"
proof -
  have run: "ESPNoiseSource_stir 0 1 0 \<lparr>enableDigitalADC = True\<rparr> sample_rng
     = Some \<lparr>o_data = esp_fill_random sample_rng 32, o_len = 32, o_credit = 64\<rparr>"
    by (simp add: ESPNoiseSource_stir_def)
  have t: "length (von_neumann True (bits_of (esp_fill_random sample_rng 32))) = 61"
    by code_simp
  have f: "length (von_neumann False (bits_of (esp_fill_random sample_rng 32))) = 61"
    by code_simp
  have l: "length (bits_of (esp_fill_random sample_rng 32)) = 256"
    by (simp add: length_bits_of length_esp_fill_random)
  show ?thesis using run t f l sample_buffer by simp
qed

text \<open>
  Claim C6, as the code has it. Whenever \<^verbatim>\<open>ESPNoiseSource::stir()\<close> produces samples, it
  hands the bytes that \<^verbatim>\<open>esp_fill_random\<close> wrote to \<^verbatim>\<open>output()\<close> unchanged; the
  delivered bit stream is never the Von Neumann extractor's output on the raw bits. The
  credit it claims is a quarter of the delivered bits, so it is never a claim of one
  credit bit per delivered bit.
\<close>

theorem ESPNoiseSource_stir_raw_quarter_credit:
  "ESPNoiseSource_stir bt wifi s this rng = Some c \<Longrightarrow>
     o_data c = esp_fill_random rng 32
     \<and> bits_of (o_data c) \<noteq> von_neumann p (bits_of (esp_fill_random rng 32))
     \<and> 4 * o_credit c = length (bits_of (o_data c))
     \<and> o_credit c < length (bits_of (o_data c))"
proof -
  assume a: "ESPNoiseSource_stir bt wifi s this rng = Some c"
  then have c: "c = \<lparr>o_data = esp_fill_random rng 32, o_len = 32, o_credit = 64\<rparr>"
    by (simp add: ESPNoiseSource_stir_def split: if_splits)
  have raw: "length (bits_of (esp_fill_random rng 32)) = 256"
    by (simp add: length_bits_of length_esp_fill_random)
  have "length (von_neumann p (bits_of (esp_fill_random rng 32))) \<le> 128"
    using length_von_neumann_le [of p "bits_of (esp_fill_random rng 32)"] raw by simp
  then have "bits_of (esp_fill_random rng 32) \<noteq> von_neumann p (bits_of (esp_fill_random rng 32))"
    using raw by auto
  then show ?thesis using c raw by simp
qed

text \<open>The same at the hardware output \<open>sample_rng\<close> with the digital ADC enabled.\<close>

theorem ESPNoiseSource_stir_raw_quarter_credit_witness:
  "ESPNoiseSource_stir 0 1 0 \<lparr>enableDigitalADC = True\<rparr> sample_rng
     = Some \<lparr>o_data = esp_fill_random sample_rng 32, o_len = 32, o_credit = 64\<rparr>
   \<and> bits_of (esp_fill_random sample_rng 32)
       \<noteq> von_neumann True (bits_of (esp_fill_random sample_rng 32))
   \<and> (4::nat) * 64 = length (bits_of (esp_fill_random sample_rng 32))
   \<and> (64::nat) < length (bits_of (esp_fill_random sample_rng 32))"
proof -
  have run: "ESPNoiseSource_stir 0 1 0 \<lparr>enableDigitalADC = True\<rparr> sample_rng
     = Some \<lparr>o_data = esp_fill_random sample_rng 32, o_len = 32, o_credit = 64\<rparr>"
    by (simp add: ESPNoiseSource_stir_def)
  from ESPNoiseSource_stir_raw_quarter_credit [OF run, of True] run
  show ?thesis by simp
qed

end
